theory Spec2Isabelle
  imports Main "HOL-Library.AList" "HOL-Library.Multiset"
begin

section \<open>Data model (src/README.md, listing of src/types/formTypes.ts)\<close>

text \<open>
  The interface \<open>Field\<close>: \<open>type\<close> and \<open>name\<close> are required strings, the other
  members are optional (\<open>None\<close> is JavaScript's \<open>undefined\<close>). The validation rule is
  a \<open>Yup.AnySchema\<close>; Yup is an external library, so the rule is a value of an
  arbitrary type \<open>'v\<close>. A schema is an object, hence truthy whenever it is present.
\<close>

record 'v Field =
  type :: string
  name :: string
  label :: "string option"
  "value" :: "string option"
  options :: "string list option"
  validation :: "'v option"

text \<open>
  A plain JavaScript object used as a dictionary (\<open>{}\<close> filled by \<open>obj[key] = v\<close>):
  its own properties, as key/value entries with pairwise different keys. The mapping such
  an object stands for is \<open>map_of\<close> of its entries; the own properties are what
  \<open>Object.keys\<close>, Formik and Yup's \<open>shape\<close> read.
\<close>

type_synonym 'a obj = "(string \<times> 'a) list"

text \<open>
  The assignment \<open>obj[key] = v\<close> on an object created by \<open>{}\<close>. Assigning to a key
  that exists overwrites the value in place, assigning to a new key adds an entry; this is
  \<open>AList.update\<close>. The one key that behaves differently is \<open>__proto__\<close>: it is an
  accessor that every plain object inherits from \<open>Object.prototype\<close>, so the assignment
  calls its setter, which makes \<open>v\<close> the prototype when \<open>v\<close> is an object and ignores
  any other value. In neither case does the object get an own property. The entries
  are the own properties only; the prototype is not recorded.
\<close>

definition assign :: "string \<Rightarrow> 'a \<Rightarrow> 'a obj \<Rightarrow> 'a obj" where
  "assign key v obj = (if key = ''__proto__'' then obj else AList.update key v obj)"

section \<open>Validation Contract Builder (listing of src/utils/validationSchema.ts)\<close>

text \<open>
  The body of the \<open>forEach\<close> callback: \<open>if (field.validation) shape[field.name] =
  field.validation\<close>.
\<close>

definition addRule :: "'v obj \<Rightarrow> 'v Field \<Rightarrow> 'v obj" where
  "addRule shape field =
     (case validation field of
        Some rule \<Rightarrow> assign (name field) rule shape
      | None \<Rightarrow> shape)"

text \<open>
  \<open>generateValidationSchema\<close> starts from the empty object, visits the fields in list
  order and returns \<open>Yup.object().shape(shape)\<close>. The object schema is identified with
  the shape it was built from: one constraint per key.
\<close>

definition generateValidationSchema :: "'v Field list \<Rightarrow> 'v obj" where
  "generateValidationSchema fs = foldl addRule [] fs"

section \<open>Field Renderer (listing of src/components/FormField.tsx)\<close>

text \<open>The five field components, with the props \<open>FormField\<close> passes to them.\<close>

datatype control =
    TextField string "string option" string
  | CheckboxField string "string option"
  | RadioField string "string option" "string list"
  | SelectField string "string option" "string list"
  | TextAreaField string "string option"

text \<open>The expression \<open>field.options || []\<close>: an array is truthy, also when empty.\<close>

definition optionsOrEmpty :: "'v Field \<Rightarrow> string list" where
  "optionsOrEmpty field = (case options field of Some os \<Rightarrow> os | None \<Rightarrow> [])"

text \<open>
  The \<open>switch\<close> over \<open>field.type\<close>, case by case in the order of the source; the
  \<open>default\<close> branch returns \<open>null\<close>, which is \<open>None\<close>.
\<close>

definition FormField :: "'v Field \<Rightarrow> control option" where
  "FormField field =
     (if type field = ''text'' \<or> type field = ''password'' \<or> type field = ''email''
         \<or> type field = ''number''
      then Some (TextField (name field) (label field) (type field))
      else if type field = ''checkbox''
      then Some (CheckboxField (name field) (label field))
      else if type field = ''radio''
      then Some (RadioField (name field) (label field) (optionsOrEmpty field))
      else if type field = ''select''
      then Some (SelectField (name field) (label field) (optionsOrEmpty field))
      else if type field = ''textarea''
      then Some (TextAreaField (name field) (label field))
      else None)"

text \<open>
  \<open>jsonData.fields.map((field, index) => <FormField ... />)\<close>: one slot per field, in
  list order. A slot holding \<open>None\<close> puts nothing on the page, so the controls the user
  sees are the slots that hold a control.
\<close>

definition renderFields :: "'v Field list \<Rightarrow> control option list" where
  "renderFields fs = map FormField fs"

definition renderedControls :: "'v Field list \<Rightarrow> control list" where
  "renderedControls fs =
     concat (map (\<lambda>slot. case slot of Some c \<Rightarrow> [c] | None \<Rightarrow> []) (renderFields fs))"

text \<open>The kinds that have a \<open>case\<close> label in the \<open>switch\<close>.\<close>

definition recognisedKinds :: "string list" where
  "recognisedKinds =
     [''text'', ''password'', ''email'', ''number'', ''checkbox'', ''radio'', ''select'',
      ''textarea'']"

section \<open>Form Orchestrator (listing of src/components/FormGenerator.tsx)\<close>

text \<open>
  \<open>jsonData.fields.reduce((acc, field) => { acc[field.name] = ''; return acc; }, {})\<close>.
\<close>

definition initialValues :: "'v Field list \<Rightarrow> string obj" where
  "initialValues fs = foldl (\<lambda>acc field. assign (name field) [] acc) [] fs"

text \<open>
  The state of one rendered form: what Formik keeps (\<open>initial\<close>, \<open>values\<close>,
  \<open>isSubmitting\<close>), the two \<open>useState\<close> cells of \<open>useFormSubmit\<close>, and a history
  variable \<open>submitted\<close> recording the argument of every call of the external submit
  callback.
\<close>

record form_state =
  initial :: "string obj"
  "values" :: "string obj"
  isSubmitting :: bool
  successMessage :: "string option"
  errorMessage :: "string option"
  submitted :: "string obj list"

text \<open>
  The promise returned by the external callback \<open>onSubmit\<close> is fulfilled, is rejected
  (or the callback throws) with some error value, or never settles.
\<close>

datatype 'e outcome = Resolved | Rejected 'e | Pending

definition setSuccessMessage :: "string option \<Rightarrow> form_state \<Rightarrow> form_state" where
  "setSuccessMessage m s = s\<lparr>successMessage := m\<rparr>"

definition setErrorMessage :: "string option \<Rightarrow> form_state \<Rightarrow> form_state" where
  "setErrorMessage m s = s\<lparr>errorMessage := m\<rparr>"

text \<open>
  Modelled from the spec: the two Formik helpers handed to the submit adapter. Formik is
  an external library; \<open>setSubmitting\<close> writes the in-flight flag and \<open>resetForm\<close>
  puts the field values back to the initial values (the source's own comment at the
  call: "Reset form fields to initial values").
\<close>

definition setSubmitting :: "bool \<Rightarrow> form_state \<Rightarrow> form_state" where
  "setSubmitting b s = s\<lparr>isSubmitting := b\<rparr>"

definition resetForm :: "form_state \<Rightarrow> form_state" where
  "resetForm s = s\<lparr>values := initial s\<rparr>"

subsection \<open>The submit adapter (listing of src/hooks/useFormSubmit.ts)\<close>

text \<open>
  \<open>handleSubmit\<close>: the callback is called with the values; the \<open>try\<close> branch runs when
  the promise is fulfilled, the \<open>catch\<close> branch when it is rejected (the error value is
  bound and not used), and \<open>finally\<close> after either. While the promise is pending the
  function is suspended at \<open>await\<close> and nothing after it has run.
\<close>

definition handleSubmit ::
  "(string obj \<Rightarrow> 'e outcome) \<Rightarrow> string obj \<Rightarrow> form_state \<Rightarrow> form_state" where
  "handleSubmit onSubmit vals s =
     (let called = s\<lparr>submitted := submitted s @ [vals]\<rparr> in
      case onSubmit vals of
        Resolved \<Rightarrow>
          setSubmitting False
            (resetForm
              (setErrorMessage None
                (setSuccessMessage (Some ''Form submitted successfully!'') called)))
      | Rejected error \<Rightarrow>
          setSubmitting False
            (setSuccessMessage None
              (setErrorMessage (Some ''Failed to submit the form. Please try again.'') called))
      | Pending \<Rightarrow> called)"

subsection \<open>What FormGenerator renders below the fields\<close>

text \<open>The \<open>disabled\<close> prop of the submit button: \<open>isSubmitting || !isValid || !dirty\<close>.\<close>

definition submitDisabled :: "bool \<Rightarrow> bool \<Rightarrow> bool \<Rightarrow> bool" where
  "submitDisabled submitting valid isDirty = (submitting \<or> \<not> valid \<or> \<not> isDirty)"

text \<open>
  The two status lines, \<open>{successMessage && <div green>}\<close> and
  \<open>{errorMessage && <div red>}\<close>: a line appears when its message is a non-empty
  string (\<open>null\<close> and the empty string are falsy).
\<close>

datatype status = Green string | Red string

definition statusLines :: "form_state \<Rightarrow> status list" where
  "statusLines s =
     (case successMessage s of Some m \<Rightarrow> (if m \<noteq> [] then [Green m] else []) | None \<Rightarrow> [])
     @ (case errorMessage s of Some m \<Rightarrow> (if m \<noteq> [] then [Red m] else []) | None \<Rightarrow> [])"

text \<open>
  The state at the first render: Formik starts from \<open>initialValues\<close>, nothing is in
  flight, both messages are \<open>null\<close>.
\<close>

definition initialState :: "'v Field list \<Rightarrow> form_state" where
  "initialState fs =
     \<lparr>initial = initialValues fs, values = initialValues fs, isSubmitting = False,
      successMessage = None, errorMessage = None, submitted = []\<rparr>"

subsection \<open>The managed form library\<close>

text \<open>
  Modelled from the spec: the flags Formik (external) hands to the render function,
  after section 6 of the specification: validity is recomputed against the aggregate
  contract on every value change, and \<open>dirty\<close> says that the values differ from the
  initial values. What a single constraint accepts is Yup's business and is the parameter
  \<open>accepts\<close>; it is given the value stored under the constraint's key
  (\<open>None\<close> when there is none).
\<close>

definition isValid :: "('v \<Rightarrow> string option \<Rightarrow> bool) \<Rightarrow> 'v obj \<Rightarrow> string obj \<Rightarrow> bool" where
  "isValid accepts schema vals =
     list_all (\<lambda>entry. accepts (snd entry) (map_of vals (fst entry))) schema"

definition dirty :: "form_state \<Rightarrow> bool" where
  "dirty s = (set (values s) \<noteq> set (initial s))"

text \<open>
  Modelled from the spec: a user-initiated submit (section 4.3, transition from idle to
  submitting). Nothing happens while the submit control is disabled; otherwise the
  in-flight flag is raised and the submit adapter is called with the current values.
\<close>

definition submitForm ::
  "('v \<Rightarrow> string option \<Rightarrow> bool) \<Rightarrow> 'v obj \<Rightarrow> (string obj \<Rightarrow> 'e outcome) \<Rightarrow> form_state
     \<Rightarrow> form_state" where
  "submitForm accepts schema onSubmit s =
     (if submitDisabled (isSubmitting s) (isValid accepts schema (values s)) (dirty s)
      then s
      else handleSubmit onSubmit (values s) (setSubmitting True s))"

text \<open>
  Modelled from the spec: the events of one form instance. The user edits the field
  called \<open>n\<close>, or starts a submit, for which the external callback behaves as the given
  function does.
\<close>

datatype 'e event = Change string string | Submit "string obj \<Rightarrow> 'e outcome"

fun step ::
  "('v \<Rightarrow> string option \<Rightarrow> bool) \<Rightarrow> 'v obj \<Rightarrow> form_state \<Rightarrow> 'e event \<Rightarrow> form_state" where
  "step accepts schema s (Change n v) = s\<lparr>values := AList.update n v (values s)\<rparr>"
| "step accepts schema s (Submit onSubmit) = submitForm accepts schema onSubmit s"

definition run ::
  "('v \<Rightarrow> string option \<Rightarrow> bool) \<Rightarrow> 'v Field list \<Rightarrow> 'e event list \<Rightarrow> form_state" where
  "run accepts fs events =
     foldl (step accepts (generateValidationSchema fs)) (initialState fs) events"

section \<open>The example form (listing of src/App.tsx)\<close>

text \<open>
  The eight named fields of \<open>jsonData\<close>; a rule is written as the list of the Yup
  checks it chains.
\<close>

definition mkField :: "string \<Rightarrow> string \<Rightarrow> string \<Rightarrow> string list option \<Rightarrow> 'v option \<Rightarrow> 'v Field" where
  "mkField t n l os r =
     \<lparr>type = t, name = n, label = Some l, value = None, options = os, validation = r\<rparr>"

definition appFields :: "string list Field list" where
  "appFields =
     [mkField ''text'' ''username'' ''Username'' None (Some [''string'', ''required'']),
      mkField ''password'' ''password'' ''Password'' None (Some [''string'', ''required'']),
      mkField ''email'' ''email'' ''Email'' None (Some [''string'', ''email'', ''required'']),
      mkField ''number'' ''age'' ''Age'' None (Some [''number'', ''required'', ''min 0'']),
      mkField ''checkbox'' ''subscribe'' ''Subscribe to newsletter'' None None,
      mkField ''radio'' ''gender'' ''Gender'' (Some [''Male'', ''Female''])
        (Some [''string'', ''required'']),
      mkField ''select'' ''country'' ''Country'' (Some [''USA'', ''Canada'', ''UK''])
        (Some [''string'', ''required'']),
      mkField ''textarea'' ''bio'' ''Bio'' None None]"

text \<open>
  A reading of those rules on the text a field holds: \<open>required\<close> rejects a missing and
  an empty value, \<open>email\<close> wants an \<open>@\<close> in it; the other checks accept.
\<close>

definition appAccepts :: "string list \<Rightarrow> string option \<Rightarrow> bool" where
  "appAccepts rule v =
     ((''required'' \<in> set rule \<longrightarrow> v \<noteq> None \<and> v \<noteq> Some [])
      \<and> (''email'' \<in> set rule \<longrightarrow> (case v of Some txt \<Rightarrow> CHR ''@'' \<in> set txt | None \<Rightarrow> True)))"

section \<open>Specification-level notions\<close>




text \<open>At most one of the two messages is set.\<close>

definition oneMessage :: "form_state \<Rightarrow> bool" where
  "oneMessage s = (successMessage s = None \<or> errorMessage s = None)"

section \<open>Example lists with a repeated name\<close>





text \<open>
  The ninth entry of \<open>jsonData\<close>, \<open>{ type: 'submit', value: 'Submit' }\<close>. It gives
  no name; a missing name used as a property key reads \<open>undefined\<close>.
\<close>

definition submitEntry :: "string list Field" where
  "submitEntry =
     \<lparr>type = ''submit'', name = ''undefined'', label = None, value = Some ''Submit'',
      options = None, validation = None\<rparr>"


text \<open>
  The submit callback of \<open>App.tsx\<close>: the promise is rejected with the error
  \<open>Submission failed\<close> when the user name is \<open>error\<close>, and fulfilled otherwise.
\<close>

definition appSubmit :: "string obj \<Rightarrow> string outcome" where
  "appSubmit vals =
     (if map_of vals ''username'' = Some ''error'' then Rejected ''Submission failed''
      else Resolved)"

text \<open>A user fills in every field that has a rule, under a given user name.\<close>

definition fillIn :: "string \<Rightarrow> string event list" where
  "fillIn user =
     [Change ''username'' user, Change ''password'' ''secret'', Change ''email'' ''bob@x.com'',
      Change ''age'' ''42'', Change ''gender'' ''Male'', Change ''country'' ''UK'']"

text \<open>
  A session with the example form: the user name \<open>error\<close> makes the first submit fail;
  the user then corrects the name.
\<close>

definition failedOnce :: "string event list" where
  "failedOnce = fillIn ''error'' @ [Submit appSubmit]"

definition corrected :: "string event list" where
  "corrected = failedOnce @ [Change ''username'' ''bob'']"




section \<open>Objects as entry lists\<close>



section \<open>Assignment to a key\<close>




section \<open>The initial values\<close>






section \<open>The validation contract\<close>

















section \<open>Decomposed lists, rendering and validity\<close>




lemma isValid_rejected_entry:
  assumes "(n, r) \<in> set schema" and "\<not> accepts r (map_of vals n)"
  shows "\<not> isValid accepts schema vals"
proof
  assume "isValid accepts schema vals"
  then have "\<forall>entry\<in>set schema. accepts (snd entry) (map_of vals (fst entry))"
    by (simp add: isValid_def list_all_iff)
  from this assms(1) have "accepts (snd (n, r)) (map_of vals (fst (n, r)))" by (rule bspec)
  with assms(2) show False by simp
qed

lemma FormField_None_iff:
  "FormField f = None \<longleftrightarrow> type f \<notin> set recognisedKinds"
  by (simp add: FormField_def recognisedKinds_def)

lemma renderedControls_append:
  "renderedControls (xs @ ys) = renderedControls xs @ renderedControls ys"
  by (simp add: renderedControls_def renderFields_def)


section \<open>Claims about the two mappings\<close>













section \<open>Claims about the Field Renderer\<close>

text \<open>
  Claim C6. For every field descriptor whose kind is none of text, password, email,
  number, checkbox, radio, select and textarea (the pseudo-kind \<open>submit\<close> included),
  \<open>FormField\<close> returns no control; it has no failing branch. Wherever such a field stands
  in a list, the slots of the fields before and after it are what they are without it,
  and the controls on the page are those of the list without it.
\<close>

theorem unknown_kind_renders_nothing:
  assumes "type f \<notin> set recognisedKinds"
  shows "FormField f = None
     \<and> renderFields (xs @ f # ys) = renderFields xs @ None # renderFields ys
     \<and> renderedControls (xs @ f # ys) = renderedControls (xs @ ys)"
proof -
  from assms have n: "FormField f = None" by (rule FormField_None_iff [THEN iffD2])
  then have s: "renderFields (xs @ f # ys) = renderFields xs @ None # renderFields ys"
    by (simp add: renderFields_def)
  from n have "renderedControls [f] = []"
    by (simp add: renderedControls_def renderFields_def)
  then have "renderedControls (xs @ [f] @ ys) = renderedControls (xs @ ys)"
    by (simp only: renderedControls_append append_Nil)
  then have c: "renderedControls (xs @ f # ys) = renderedControls (xs @ ys)" by simp
  from n s c show ?thesis by (intro conjI)
qed

text \<open>
  The example form with its \<open>submit\<close> entry at the end: the entry renders nothing and
  the eight controls of the named fields are on the page.
\<close>

theorem unknown_kind_renders_nothing_witness:
  "FormField submitEntry = None
   \<and> renderFields (appFields @ submitEntry # [])
       = renderFields appFields @ None # renderFields ([] :: string list Field list)
   \<and> renderedControls (appFields @ submitEntry # []) = renderedControls (appFields @ [])
   \<and> length (renderedControls (appFields @ [])) = 8"
proof -
  have k: "type submitEntry \<notin> set recognisedKinds"
    by (simp add: submitEntry_def recognisedKinds_def)
  have l: "length (renderedControls (appFields @ [])) = 8"
    by (simp add: renderedControls_def renderFields_def FormField_def appFields_def mkField_def)
  note t = unknown_kind_renders_nothing [OF k, of appFields "[]"]
  from t have a: "FormField submitEntry = None" by (rule conjunct1)
  from t have b: "renderFields (appFields @ submitEntry # [])
      = renderFields appFields @ None # renderFields ([] :: string list Field list)"
    by (rule conjunct1 [OF conjunct2])
  from t have c: "renderedControls (appFields @ submitEntry # [])
      = renderedControls (appFields @ [])"
    by (rule conjunct2 [OF conjunct2])
  from a b c l show ?thesis by (intro conjI)
qed




section \<open>The submit adapter and the runs of a form\<close>

lemma handleSubmit_Resolved:
  "onSubmit vals = Resolved \<Longrightarrow>
   handleSubmit onSubmit vals s
     = s\<lparr>values := initial s, isSubmitting := False,
          successMessage := Some ''Form submitted successfully!'', errorMessage := None,
          submitted := submitted s @ [vals]\<rparr>"
  by (simp add: handleSubmit_def setSubmitting_def resetForm_def setErrorMessage_def
      setSuccessMessage_def)

lemma handleSubmit_Rejected:
  "onSubmit vals = Rejected e \<Longrightarrow>
   handleSubmit onSubmit vals s
     = s\<lparr>isSubmitting := False, successMessage := None,
          errorMessage := Some ''Failed to submit the form. Please try again.'',
          submitted := submitted s @ [vals]\<rparr>"
  by (simp add: handleSubmit_def setSubmitting_def setErrorMessage_def setSuccessMessage_def)

lemma handleSubmit_Pending:
  "onSubmit vals = Pending \<Longrightarrow>
   handleSubmit onSubmit vals s = s\<lparr>submitted := submitted s @ [vals]\<rparr>"
  by (simp add: handleSubmit_def)

lemma handleSubmit_submitted:
  "submitted (handleSubmit onSubmit vals s) = submitted s @ [vals]"
  by (cases "onSubmit vals")
    (simp_all add: handleSubmit_Resolved handleSubmit_Rejected handleSubmit_Pending)

lemma handleSubmit_initial:
  "initial (handleSubmit onSubmit vals s) = initial s"
  by (cases "onSubmit vals")
    (simp_all add: handleSubmit_Resolved handleSubmit_Rejected handleSubmit_Pending)

lemma handleSubmit_oneMessage:
  "oneMessage s \<Longrightarrow> oneMessage (handleSubmit onSubmit vals s)"
  by (cases "onSubmit vals")
    (simp_all add: handleSubmit_Resolved handleSubmit_Rejected handleSubmit_Pending
      oneMessage_def)

lemma step_oneMessage:
  "oneMessage s \<Longrightarrow> oneMessage (step accepts schema s ev)"
proof (cases ev)
  case (Change n v)
  assume "oneMessage s"
  with Change show ?thesis by (simp add: oneMessage_def)
next
  case (Submit onSubmit)
  assume a: "oneMessage s"
  then have "oneMessage (setSubmitting True s)"
    by (simp add: oneMessage_def setSubmitting_def)
  then have "oneMessage (handleSubmit onSubmit (values s) (setSubmitting True s))"
    by (rule handleSubmit_oneMessage)
  with a Submit show ?thesis by (simp add: submitForm_def)
qed

lemma step_initial:
  "initial (step accepts schema s ev) = initial s"
proof (cases ev)
  case (Change n v)
  then show ?thesis by simp
next
  case (Submit onSubmit)
  then show ?thesis
    by (simp add: submitForm_def handleSubmit_initial setSubmitting_def)
qed

lemma step_submitted_valid:
  assumes "list_all (isValid accepts schema) (submitted s)"
  shows "list_all (isValid accepts schema) (submitted (step accepts schema s ev))"
proof (cases ev)
  case (Change n v)
  with assms show ?thesis by simp
next
  case (Submit onSubmit)
  show ?thesis
  proof (cases "submitDisabled (isSubmitting s) (isValid accepts schema (values s)) (dirty s)")
    case True
    with assms Submit show ?thesis by (simp add: submitForm_def)
  next
    case False
    then have "isValid accepts schema (values s)" by (simp add: submitDisabled_def)
    with assms False Submit show ?thesis
      by (simp add: submitForm_def handleSubmit_submitted setSubmitting_def)
  qed
qed

lemma run_snoc:
  "run accepts fs (evs @ [ev])
     = step accepts (generateValidationSchema fs) (run accepts fs evs) ev"
  by (simp add: run_def)

lemma run_oneMessage:
  "oneMessage (run accepts fs evs)"
proof (induction evs rule: rev_induct)
  case Nil
  show ?case by (simp add: run_def initialState_def oneMessage_def)
next
  case (snoc ev evs)
  then show ?case by (simp only: run_snoc step_oneMessage)
qed

lemma run_initial:
  "initial (run accepts fs evs) = initialValues fs"
proof (induction evs rule: rev_induct)
  case Nil
  show ?case by (simp add: run_def initialState_def)
next
  case (snoc ev evs)
  then show ?case by (simp only: run_snoc step_initial)
qed

lemma run_submitted_valid:
  "list_all (isValid accepts (generateValidationSchema fs)) (submitted (run accepts fs evs))"
proof (induction evs rule: rev_induct)
  case Nil
  show ?case by (simp add: run_def initialState_def)
next
  case (snoc ev evs)
  then show ?case by (simp only: run_snoc step_submitted_valid)
qed

lemma statusLines_oneMessage:
  "oneMessage s \<Longrightarrow> length (statusLines s) \<le> 1"
  by (auto simp: oneMessage_def statusLines_def split: option.splits)

subsection \<open>The example form, evaluated\<close>

lemma example_contract:
  "generateValidationSchema appFields
     = [(''username'', [''string'', ''required'']), (''password'', [''string'', ''required'']),
        (''email'', [''string'', ''email'', ''required'']),
        (''age'', [''number'', ''required'', ''min 0'']),
        (''gender'', [''string'', ''required'']), (''country'', [''string'', ''required''])]"
  by (simp add: generateValidationSchema_def addRule_def assign_def appFields_def mkField_def)

lemma example_initialValues:
  "initialValues appFields
     = [(''username'', []), (''password'', []), (''email'', []), (''age'', []),
        (''subscribe'', []), (''gender'', []), (''country'', []), (''bio'', [])]"
  by (simp add: initialValues_def assign_def appFields_def mkField_def)

lemma example_filled_state:
  "run appAccepts appFields (fillIn user)
     = \<lparr>initial = initialValues appFields,
        values = [(''username'', user), (''password'', ''secret''), (''email'', ''bob@x.com''),
          (''age'', ''42''), (''subscribe'', []), (''gender'', ''Male''), (''country'', ''UK''),
          (''bio'', [])],
        isSubmitting = False, successMessage = None, errorMessage = None, submitted = []\<rparr>"
  by (simp add: run_def fillIn_def initialState_def example_initialValues)

lemma example_failed_state:
  "run appAccepts appFields failedOnce
     = \<lparr>initial = initialValues appFields,
        values = [(''username'', ''error''), (''password'', ''secret''),
          (''email'', ''bob@x.com''), (''age'', ''42''), (''subscribe'', []),
          (''gender'', ''Male''), (''country'', ''UK''), (''bio'', [])],
        isSubmitting = False, successMessage = None,
        errorMessage = Some ''Failed to submit the form. Please try again.'',
        submitted = [[(''username'', ''error''), (''password'', ''secret''),
          (''email'', ''bob@x.com''), (''age'', ''42''), (''subscribe'', []),
          (''gender'', ''Male''), (''country'', ''UK''), (''bio'', [])]]\<rparr>"
proof -
  let ?s = "run appAccepts appFields (fillIn ''error'')"
  have v: "isValid appAccepts (generateValidationSchema appFields) (values ?s)"
    by (simp add: example_filled_state example_contract isValid_def appAccepts_def)
  have "(''username'', ''error'') \<in> set (values ?s)"
    and "(''username'', ''error'') \<notin> set (initial ?s)"
    by (simp_all add: example_filled_state example_initialValues)
  then have "set (values ?s) \<noteq> set (initial ?s)" by metis
  then have d: "dirty ?s" by (simp add: dirty_def)
  have i: "\<not> isSubmitting ?s" by (simp add: example_filled_state)
  have r: "appSubmit (values ?s) = Rejected ''Submission failed''"
    by (simp add: example_filled_state appSubmit_def)
  have "run appAccepts appFields failedOnce
      = submitForm appAccepts (generateValidationSchema appFields) appSubmit ?s"
    by (simp add: failedOnce_def run_def)
  also from v d i have "\<dots> = handleSubmit appSubmit (values ?s) (setSubmitting True ?s)"
    by (simp add: submitForm_def submitDisabled_def)
  also from r have "\<dots> = (setSubmitting True ?s)
      \<lparr>isSubmitting := False, successMessage := None,
       errorMessage := Some ''Failed to submit the form. Please try again.'',
       submitted := submitted (setSubmitting True ?s) @ [values ?s]\<rparr>"
    by (rule handleSubmit_Rejected)
  finally show ?thesis
    by (simp add: setSubmitting_def example_filled_state)
qed

section \<open>Claims about submission\<close>

text \<open>
  Claim C3. Whenever the submit callback resolves, after \<open>handleSubmit\<close> the success
  message is set and shown (it is the only status line), the field values are the
  initial values, the error message is cleared, and nothing is in flight. In a state of
  a running form the initial values are those built from the field list.
\<close>

theorem handleSubmit_on_success:
  assumes "onSubmit vals = Resolved"
  shows "successMessage (handleSubmit onSubmit vals s) = Some ''Form submitted successfully!''
     \<and> statusLines (handleSubmit onSubmit vals s) = [Green ''Form submitted successfully!'']
     \<and> values (handleSubmit onSubmit vals s) = initial s
     \<and> errorMessage (handleSubmit onSubmit vals s) = None
     \<and> \<not> isSubmitting (handleSubmit onSubmit vals s)
     \<and> values (handleSubmit onSubmit vals (run accepts fs evs)) = initialValues fs"
proof -
  note r = handleSubmit_Resolved [of onSubmit vals, OF assms]
  have a: "successMessage (handleSubmit onSubmit vals s) = Some ''Form submitted successfully!''"
    by (simp add: r)
  have b: "statusLines (handleSubmit onSubmit vals s) = [Green ''Form submitted successfully!'']"
    by (simp add: r statusLines_def)
  have c: "values (handleSubmit onSubmit vals s) = initial s" by (simp add: r)
  have d: "errorMessage (handleSubmit onSubmit vals s) = None" by (simp add: r)
  have e: "\<not> isSubmitting (handleSubmit onSubmit vals s)" by (simp add: r)
  have f: "values (handleSubmit onSubmit vals (run accepts fs evs)) = initialValues fs"
    by (simp add: r run_initial)
  from a b c d e f show ?thesis by (intro conjI)
qed

text \<open>
  The example form after a failed attempt and a corrected user name: the callback
  resolves, the red line gives way to the green one and the fields are empty again.
\<close>

theorem handleSubmit_on_success_witness:
  "errorMessage (run appAccepts appFields corrected)
     = Some ''Failed to submit the form. Please try again.''
   \<and> statusLines (handleSubmit appSubmit (values (run appAccepts appFields corrected))
         (run appAccepts appFields corrected)) = [Green ''Form submitted successfully!'']
   \<and> errorMessage (handleSubmit appSubmit (values (run appAccepts appFields corrected))
         (run appAccepts appFields corrected)) = None
   \<and> values (handleSubmit appSubmit (values (run appAccepts appFields corrected))
         (run appAccepts appFields corrected)) = initialValues appFields"
proof -
  let ?s = "run appAccepts appFields corrected"
  have s: "?s = (run appAccepts appFields failedOnce)
      \<lparr>values := AList.update ''username'' ''bob'' (values (run appAccepts appFields failedOnce))\<rparr>"
    by (simp add: corrected_def run_snoc)
  have e: "errorMessage ?s = Some ''Failed to submit the form. Please try again.''"
    by (simp add: s example_failed_state)
  have r: "appSubmit (values ?s) = Resolved"
    by (simp add: s example_failed_state appSubmit_def)
  note t = handleSubmit_on_success [where onSubmit = appSubmit and vals = "values ?s" and s = ?s
      and accepts = appAccepts and fs = appFields and evs = corrected, OF r]
  from t have b: "statusLines (handleSubmit appSubmit (values ?s) ?s)
      = [Green ''Form submitted successfully!'']"
    by (rule conjunct1 [OF conjunct2])
  from t have d: "errorMessage (handleSubmit appSubmit (values ?s) ?s) = None"
    by (rule conjunct1 [OF conjunct2 [OF conjunct2 [OF conjunct2]]])
  from t have f: "values (handleSubmit appSubmit (values ?s) ?s) = initialValues appFields"
    by (rule conjunct2 [OF conjunct2 [OF conjunct2 [OF conjunct2 [OF conjunct2]]]])
  from e b d f show ?thesis by (intro conjI)
qed

text \<open>
  Claim C4. Whenever the submit callback rejects or throws, with whatever error value,
  after \<open>handleSubmit\<close> the error message is one fixed text and is shown (it is the only
  status line), the success message is cleared, the field values are those the user
  entered, and the in-flight flag is down. A form that was valid and changed is then
  ready for a second attempt: the submit control is enabled and a submit calls the
  callback again with the same values.
\<close>

theorem handleSubmit_on_failure:
  assumes "onSubmit vals = Rejected e"
  shows "errorMessage (handleSubmit onSubmit vals s)
       = Some ''Failed to submit the form. Please try again.''
     \<and> statusLines (handleSubmit onSubmit vals s)
       = [Red ''Failed to submit the form. Please try again.'']
     \<and> successMessage (handleSubmit onSubmit vals s) = None
     \<and> values (handleSubmit onSubmit vals s) = values s
     \<and> \<not> isSubmitting (handleSubmit onSubmit vals s)
     \<and> (isValid accepts schema (values s) \<and> dirty s \<longrightarrow>
          \<not> submitDisabled (isSubmitting (handleSubmit onSubmit vals s))
               (isValid accepts schema (values (handleSubmit onSubmit vals s)))
               (dirty (handleSubmit onSubmit vals s))
          \<and> submitted (submitForm accepts schema retry (handleSubmit onSubmit vals s))
             = submitted (handleSubmit onSubmit vals s) @ [values s])"
proof -
  let ?s' = "handleSubmit onSubmit vals s"
  note r = handleSubmit_Rejected [of onSubmit vals, OF assms]
  have a: "errorMessage ?s' = Some ''Failed to submit the form. Please try again.''"
    by (simp add: r)
  have b: "statusLines ?s' = [Red ''Failed to submit the form. Please try again.'']"
    by (simp add: r statusLines_def)
  have c: "successMessage ?s' = None" by (simp add: r)
  have d: "values ?s' = values s" by (simp add: r)
  have e: "\<not> isSubmitting ?s'" by (simp add: r)
  have f: "isValid accepts schema (values s) \<and> dirty s \<longrightarrow>
      \<not> submitDisabled (isSubmitting ?s') (isValid accepts schema (values ?s')) (dirty ?s')
      \<and> submitted (submitForm accepts schema retry ?s') = submitted ?s' @ [values s]"
  proof
    assume h: "isValid accepts schema (values s) \<and> dirty s"
    have "dirty ?s' = dirty s" by (simp add: r dirty_def)
    with h d e
    have g: "\<not> submitDisabled (isSubmitting ?s') (isValid accepts schema (values ?s')) (dirty ?s')"
      by (simp add: submitDisabled_def)
    then have "submitForm accepts schema retry ?s'
        = handleSubmit retry (values ?s') (setSubmitting True ?s')"
      by (simp add: submitForm_def)
    then have "submitted (submitForm accepts schema retry ?s') = submitted ?s' @ [values s]"
      by (simp add: handleSubmit_submitted setSubmitting_def d)
    with g show "\<not> submitDisabled (isSubmitting ?s') (isValid accepts schema (values ?s'))
        (dirty ?s')
      \<and> submitted (submitForm accepts schema retry ?s') = submitted ?s' @ [values s]"
      by (rule conjI)
  qed
  from a b c d e f show ?thesis by (intro conjI)
qed

text \<open>
  The example form filled in under the user name \<open>error\<close>: the callback of
  \<open>App.tsx\<close> rejects with \<open>Submission failed\<close>, the user sees the fixed text, the
  fields keep what was typed and the submit control is enabled again.
\<close>

theorem handleSubmit_on_failure_witness:
  "statusLines (handleSubmit appSubmit (values (run appAccepts appFields (fillIn ''error'')))
       (run appAccepts appFields (fillIn ''error'')))
     = [Red ''Failed to submit the form. Please try again.'']
   \<and> values (handleSubmit appSubmit (values (run appAccepts appFields (fillIn ''error'')))
       (run appAccepts appFields (fillIn ''error'')))
     = values (run appAccepts appFields (fillIn ''error''))
   \<and> \<not> submitDisabled
       (isSubmitting (handleSubmit appSubmit
         (values (run appAccepts appFields (fillIn ''error'')))
         (run appAccepts appFields (fillIn ''error''))))
       (isValid appAccepts (generateValidationSchema appFields)
         (values (handleSubmit appSubmit
           (values (run appAccepts appFields (fillIn ''error'')))
           (run appAccepts appFields (fillIn ''error'')))))
       (dirty (handleSubmit appSubmit
         (values (run appAccepts appFields (fillIn ''error'')))
         (run appAccepts appFields (fillIn ''error''))))"
proof -
  let ?s = "run appAccepts appFields (fillIn ''error'')"
  let ?s' = "handleSubmit appSubmit (values ?s) ?s"
  have v: "isValid appAccepts (generateValidationSchema appFields) (values ?s)"
    by (simp add: example_filled_state example_contract isValid_def appAccepts_def)
  have "(''username'', ''error'') \<in> set (values ?s)"
    and "(''username'', ''error'') \<notin> set (initial ?s)"
    by (simp_all add: example_filled_state example_initialValues)
  then have "set (values ?s) \<noteq> set (initial ?s)" by metis
  then have d: "dirty ?s" by (simp add: dirty_def)
  from v d have vd: "isValid appAccepts (generateValidationSchema appFields) (values ?s) \<and> dirty ?s"
    by (rule conjI)
  have r: "appSubmit (values ?s) = Rejected ''Submission failed''"
    by (simp add: example_filled_state appSubmit_def)
  note t = handleSubmit_on_failure [where onSubmit = appSubmit and vals = "values ?s"
      and s = ?s and accepts = appAccepts and schema = "generateValidationSchema appFields"
      and retry = appSubmit, OF r]
  from t have b: "statusLines ?s' = [Red ''Failed to submit the form. Please try again.'']"
    by (rule conjunct1 [OF conjunct2])
  from t have c: "values ?s' = values ?s"
    by (rule conjunct1 [OF conjunct2 [OF conjunct2 [OF conjunct2]]])
  from t have "isValid appAccepts (generateValidationSchema appFields) (values ?s) \<and> dirty ?s
      \<longrightarrow> \<not> submitDisabled (isSubmitting ?s')
          (isValid appAccepts (generateValidationSchema appFields) (values ?s')) (dirty ?s')
        \<and> submitted (submitForm appAccepts (generateValidationSchema appFields) appSubmit ?s')
          = submitted ?s' @ [values ?s]"
    by (rule conjunct2 [OF conjunct2 [OF conjunct2 [OF conjunct2 [OF conjunct2]]]])
  from this vd have "\<not> submitDisabled (isSubmitting ?s')
          (isValid appAccepts (generateValidationSchema appFields) (values ?s')) (dirty ?s')
        \<and> submitted (submitForm appAccepts (generateValidationSchema appFields) appSubmit ?s')
          = submitted ?s' @ [values ?s]"
    by (rule mp)
  then have g: "\<not> submitDisabled (isSubmitting ?s')
          (isValid appAccepts (generateValidationSchema appFields) (values ?s')) (dirty ?s')"
    by (rule conjunct1)
  from b c g show ?thesis by (intro conjI)
qed

text \<open>
  Claim C5. The submit control is disabled exactly when the form is invalid, or its
  values are not dirty, or a submission is in flight. A submit in a state where a key of
  the contract is bound to a rule that rejects the empty string, and the field of that
  name is still empty, changes nothing: the external callback is not called. Over a whole
  run of a form, every call of the callback was made with values that are valid under
  the contract.
\<close>

theorem submit_control_gate:
  "(submitDisabled submitting valid isDirty \<longleftrightarrow> \<not> valid \<or> \<not> isDirty \<or> submitting)
   \<and> ((n, rule) \<in> set (generateValidationSchema fs) \<and> \<not> accepts rule (Some [])
        \<and> map_of (values s) n = Some [] \<longrightarrow>
        submitForm accepts (generateValidationSchema fs) onSubmit s = s)
   \<and> list_all (isValid accepts (generateValidationSchema fs))
        (submitted (run accepts fs evs))"
proof (intro conjI impI)
  show "submitDisabled submitting valid isDirty \<longleftrightarrow> \<not> valid \<or> \<not> isDirty \<or> submitting"
    by (auto simp: submitDisabled_def)
next
  assume h: "(n, rule) \<in> set (generateValidationSchema fs) \<and> \<not> accepts rule (Some [])
      \<and> map_of (values s) n = Some []"
  then have m: "(n, rule) \<in> set (generateValidationSchema fs)" by (rule conjunct1)
  from h have "\<not> accepts rule (map_of (values s) n)" by simp
  with m have "\<not> isValid accepts (generateValidationSchema fs) (values s)"
    by (rule isValid_rejected_entry)
  then show "submitForm accepts (generateValidationSchema fs) onSubmit s = s"
    by (simp add: submitForm_def submitDisabled_def)
next
  show "list_all (isValid accepts (generateValidationSchema fs))
      (submitted (run accepts fs evs))"
    by (rule run_submitted_valid)
qed

text \<open>
  The example form after the password alone has been typed: the values are dirty and
  nothing is in flight, the user name is required and empty, and a submit leaves the
  state as it is.
\<close>

theorem submit_control_gate_witness:
  "submitDisabled False False True
   \<and> dirty (run appAccepts appFields [Change ''password'' ''secret'' :: string event])
   \<and> \<not> isSubmitting (run appAccepts appFields [Change ''password'' ''secret'' :: string event])
   \<and> submitForm appAccepts (generateValidationSchema appFields) appSubmit
        (run appAccepts appFields [Change ''password'' ''secret'' :: string event])
      = run appAccepts appFields [Change ''password'' ''secret'' :: string event]"
proof -
  let ?s = "run appAccepts appFields [Change ''password'' ''secret'' :: string event]"
  have s: "?s = \<lparr>initial = initialValues appFields,
        values = [(''username'', []), (''password'', ''secret''), (''email'', []),
          (''age'', []), (''subscribe'', []), (''gender'', []), (''country'', []),
          (''bio'', [])],
        isSubmitting = False, successMessage = None, errorMessage = None, submitted = []\<rparr>"
    by (simp add: run_def initialState_def example_initialValues)
  have "(''password'', ''secret'') \<in> set (values ?s)"
    and "(''password'', ''secret'') \<notin> set (initial ?s)"
    by (simp_all add: s example_initialValues)
  then have "set (values ?s) \<noteq> set (initial ?s)" by metis
  then have d: "dirty ?s" by (simp add: dirty_def)
  have i: "\<not> isSubmitting ?s" by (simp add: s)
  have h: "(''username'', [''string'', ''required'']) \<in> set (generateValidationSchema appFields)
      \<and> \<not> appAccepts [''string'', ''required''] (Some [])
      \<and> map_of (values ?s) ''username'' = Some []"
    by (simp add: example_contract appAccepts_def s)
  note t = submit_control_gate [where submitting = False and valid = False and isDirty = True
      and n = "''username''" and rule = "[''string'', ''required'']" and fs = appFields
      and accepts = appAccepts and s = ?s and onSubmit = appSubmit
      and evs = "[] :: string event list"]
  from t have "submitDisabled False False True \<longleftrightarrow> \<not> False \<or> \<not> True \<or> False"
    by (rule conjunct1)
  then have a: "submitDisabled False False True" by simp
  from t have "(''username'', [''string'', ''required'']) \<in> set (generateValidationSchema appFields)
      \<and> \<not> appAccepts [''string'', ''required''] (Some [])
      \<and> map_of (values ?s) ''username'' = Some [] \<longrightarrow>
      submitForm appAccepts (generateValidationSchema appFields) appSubmit ?s = ?s"
    by (rule conjunct1 [OF conjunct2])
  from this h
  have b: "submitForm appAccepts (generateValidationSchema appFields) appSubmit ?s = ?s"
    by (rule mp)
  from a d i b show ?thesis by (intro conjI)
qed

text \<open>
  Claim C9. The success message and the error message are never both set: not at the
  first render, not after \<open>handleSubmit\<close> has run from a state where they were not
  (whatever the callback did), and so in no state that a form reaches through edits
  and submit attempts; at most one status line is on the page.
\<close>

theorem never_success_and_failure:
  "oneMessage (initialState fs)
   \<and> (oneMessage s \<longrightarrow> oneMessage (handleSubmit onSubmit vals s))
   \<and> oneMessage (run accepts fs evs)
   \<and> \<not> (successMessage (run accepts fs evs) \<noteq> None \<and> errorMessage (run accepts fs evs) \<noteq> None)
   \<and> length (statusLines (run accepts fs evs)) \<le> 1"
proof -
  have a: "oneMessage (initialState fs)" by (simp add: initialState_def oneMessage_def)
  have b: "oneMessage s \<longrightarrow> oneMessage (handleSubmit onSubmit vals s)"
    by (rule impI) (rule handleSubmit_oneMessage)
  have c: "oneMessage (run accepts fs evs)" by (rule run_oneMessage)
  from c have d: "\<not> (successMessage (run accepts fs evs) \<noteq> None
      \<and> errorMessage (run accepts fs evs) \<noteq> None)"
    by (auto simp: oneMessage_def)
  from c have e: "length (statusLines (run accepts fs evs)) \<le> 1"
    by (rule statusLines_oneMessage)
  from a b c d e show ?thesis by (intro conjI)
qed

text \<open>
  The example session, a failed attempt followed by a corrected one: the failure leaves
  the error message alone, and the state after the second submit shows one line.
\<close>

theorem never_success_and_failure_witness:
  "oneMessage (run appAccepts appFields failedOnce)
   \<and> oneMessage (handleSubmit appSubmit (values (run appAccepts appFields corrected))
        (run appAccepts appFields failedOnce))
   \<and> \<not> (successMessage (run appAccepts appFields (corrected @ [Submit appSubmit])) \<noteq> None
        \<and> errorMessage (run appAccepts appFields (corrected @ [Submit appSubmit])) \<noteq> None)
   \<and> length (statusLines (run appAccepts appFields (corrected @ [Submit appSubmit]))) \<le> 1"
proof -
  note t1 = never_success_and_failure [where fs = appFields and accepts = appAccepts
      and evs = failedOnce and s = "run appAccepts appFields failedOnce" and onSubmit = appSubmit
      and vals = "values (run appAccepts appFields corrected)"]
  note t2 = never_success_and_failure [where fs = appFields and accepts = appAccepts
      and evs = "corrected @ [Submit appSubmit]" and s = "run appAccepts appFields failedOnce"
      and onSubmit = appSubmit and vals = "values (run appAccepts appFields corrected)"]
  from t1 have a: "oneMessage (run appAccepts appFields failedOnce)"
    by (rule conjunct1 [OF conjunct2 [OF conjunct2]])
  from t1 have "oneMessage (run appAccepts appFields failedOnce) \<longrightarrow>
      oneMessage (handleSubmit appSubmit (values (run appAccepts appFields corrected))
        (run appAccepts appFields failedOnce))"
    by (rule conjunct1 [OF conjunct2])
  from this a have b: "oneMessage (handleSubmit appSubmit
      (values (run appAccepts appFields corrected)) (run appAccepts appFields failedOnce))"
    by (rule mp)
  from t2 have c: "\<not> (successMessage (run appAccepts appFields (corrected @ [Submit appSubmit]))
        \<noteq> None
      \<and> errorMessage (run appAccepts appFields (corrected @ [Submit appSubmit])) \<noteq> None)"
    by (rule conjunct1 [OF conjunct2 [OF conjunct2 [OF conjunct2]]])
  from t2 have d: "length (statusLines (run appAccepts appFields (corrected @ [Submit appSubmit])))
      \<le> 1"
    by (rule conjunct2 [OF conjunct2 [OF conjunct2 [OF conjunct2]]])
  from a b c d show ?thesis by (intro conjI)
qed

end
